theory Spec2Isabelle
  imports Main "HOL-Library.Word"
begin

section \<open>The configuration form: ui/src/components/NetworkInfoForm.tsx\<close>

subsection \<open>Data\<close>

text \<open>
  \<^verbatim>\<open>Network\<close> and \<^verbatim>\<open>NetworkInfo\<close> are imported from \<^verbatim>\<open>./App\<close>. The form reads
  \<^verbatim>\<open>network.ssid\<close> and compares \<^verbatim>\<open>network.security\<close> with the string
  \<^verbatim>\<open>'enterprise'\<close>, so both are strings. The form state starts as \<^verbatim>\<open>{}\<close> and
  \<^verbatim>\<open>data.ssid\<close> is passed where \<^verbatim>\<open>string | undefined\<close> is expected, so every field of
  \<^verbatim>\<open>NetworkInfo\<close> is optional: \<open>None\<close> is JavaScript's \<^verbatim>\<open>undefined\<close>. The fields of
  \<^verbatim>\<open>NetworkInfo\<close> carry the prefix \<open>info_\<close> to keep them apart from those of
  \<^verbatim>\<open>Network\<close>.
\<close>

record Network =
  ssid :: string
  security :: string

record NetworkInfo =
  info_ssid :: "string option"
  info_identity :: "string option"
  info_passphrase :: "string option"

subsection \<open>The JSON schema built by \<^verbatim>\<open>getSchema\<close>\<close>

text \<open>
  All three properties have \<^verbatim>\<open>type: 'string'\<close>. An entry of \<^verbatim>\<open>oneOf\<close> is
  \<^verbatim>\<open>{const, title}\<close>; a property without \<^verbatim>\<open>oneOf\<close> has \<open>None\<close> there.
  \<^verbatim>\<open>availableNetworks[0]?.ssid\<close> is \<^verbatim>\<open>undefined\<close> on the empty list.
  (\<open>default_value\<close> stands for the key \<^verbatim>\<open>default\<close>.) The second copy of the
  component in the file differs in the titles and the placeholder only.
\<close>

record OneOfEntry =
  const :: string
  const_title :: string

record StringProperty =
  title :: string
  default_value :: "string option"
  oneOf :: "OneOfEntry list option"

record JSONSchema =
  properties :: "(string \<times> StringProperty) list"
  required :: "string list"

definition getSchema :: "Network list \<Rightarrow> JSONSchema" where
  "getSchema availableNetworks =
     \<lparr> properties =
         [ (''ssid'',
             \<lparr> title = ''WiFi network name (SSID)'',
               default_value = (case availableNetworks of [] \<Rightarrow> None | n # _ \<Rightarrow> Some (ssid n)),
               oneOf = Some (map (\<lambda>network. \<lparr> const = ssid network, const_title = ssid network \<rparr>)
                               availableNetworks) \<rparr>),
           (''identity'',
             \<lparr> title = ''User'', default_value = Some '''', oneOf = None \<rparr>),
           (''passphrase'',
             \<lparr> title = ''Password'', default_value = Some '''', oneOf = None \<rparr>) ],
       required = [''ssid''] \<rparr>"

subsection \<open>The UI schema built by \<^verbatim>\<open>getUiSchema\<close>\<close>

record UiField =
  placeholder :: "string option"
  emphasized :: bool
  widget :: "string option"

record RenditionUiSchema =
  ui_ssid :: UiField
  ui_identity :: UiField
  ui_passphrase :: UiField

definition getUiSchema :: "bool \<Rightarrow> RenditionUiSchema" where
  "getUiSchema isEnterprise =
     \<lparr> ui_ssid = \<lparr> placeholder = Some ''Select WiFi Network'', emphasized = True, widget = None \<rparr>,
       ui_identity = \<lparr> placeholder = None, emphasized = True,
                       widget = (if \<not> isEnterprise then Some ''hidden'' else None) \<rparr>,
       ui_passphrase = \<lparr> placeholder = None, emphasized = True, widget = Some ''password'' \<rparr> \<rparr>"

text \<open>
  \<^verbatim>\<open>networks.some(n => n.ssid === selectedNetworkSsid && n.security === 'enterprise')\<close>:
  strict equality with \<^verbatim>\<open>undefined\<close> is false for every string.
\<close>

definition isEnterpriseNetwork :: "Network list \<Rightarrow> string option \<Rightarrow> bool" where
  "isEnterpriseNetwork networks selectedNetworkSsid =
     list_ex (\<lambda>network. Some (ssid network) = selectedNetworkSsid
                        \<and> security network = ''enterprise'') networks"

subsection \<open>The component\<close>

text \<open>
  What \<^verbatim>\<open>NetworkInfoForm\<close> hands to the \<^verbatim>\<open>Form\<close> element, as a function of the
  property \<^verbatim>\<open>availableNetworks\<close> and of the state \<^verbatim>\<open>data\<close>.
\<close>

record FormProps =
  form_value :: NetworkInfo
  form_schema :: JSONSchema
  form_uiSchema :: RenditionUiSchema
  submit_disabled :: bool
  submit_opacity :: string

definition NetworkInfoForm :: "Network list \<Rightarrow> NetworkInfo \<Rightarrow> FormProps" where
  "NetworkInfoForm availableNetworks data =
     (let isSelectedNetworkEnterprise = isEnterpriseNetwork availableNetworks (info_ssid data)
      in \<lparr> form_value = data,
           form_schema = getSchema availableNetworks,
           form_uiSchema = getUiSchema isSelectedNetworkEnterprise,
           submit_disabled = (length availableNetworks \<le> 0),
           submit_opacity = (if length availableNetworks > 0 then ''1'' else ''0.6'') \<rparr>)"

text \<open>The identity input is rendered unless its widget is \<^verbatim>\<open>'hidden'\<close>.\<close>

definition identity_shown :: "FormProps \<Rightarrow> bool" where
  "identity_shown f = (widget (ui_identity (form_uiSchema f)) \<noteq> Some ''hidden'')"

subsection \<open>Validation and submission by the \<^verbatim>\<open>Form\<close> element\<close>

text \<open>
  The \<^verbatim>\<open>Form\<close> element is given the component state as \<^verbatim>\<open>value\<close> and the schema.
  Its form data are the state with the schema's defaults filled in: a property that the
  state leaves undefined takes the \<^verbatim>\<open>default\<close> of the schema, when there is one. So
  the ssid defaults to the first listed network's, the identity and the passphrase to
  the empty string. These form data are what the element validates and what it hands to
  \<^verbatim>\<open>onFormSubmit\<close>, which passes them to \<^verbatim>\<open>onSubmit\<close>.
\<close>

definition field :: "NetworkInfo \<Rightarrow> string \<Rightarrow> string option" where
  "field d k =
     (if k = ''ssid'' then info_ssid d
      else if k = ''identity'' then info_identity d
      else if k = ''passphrase'' then info_passphrase d
      else None)"

definition default_of :: "JSONSchema \<Rightarrow> string \<Rightarrow> string option" where
  "default_of s k =
     (case map_of (properties s) k of None \<Rightarrow> None | Some p \<Rightarrow> default_value p)"

definition with_default :: "JSONSchema \<Rightarrow> string \<Rightarrow> string option \<Rightarrow> string option" where
  "with_default s k v = (case v of None \<Rightarrow> default_of s k | Some x \<Rightarrow> Some x)"

definition getDefaultFormState :: "JSONSchema \<Rightarrow> NetworkInfo \<Rightarrow> NetworkInfo" where
  "getDefaultFormState s d =
     \<lparr> info_ssid = with_default s ''ssid'' (info_ssid d),
       info_identity = with_default s ''identity'' (info_identity d),
       info_passphrase = with_default s ''passphrase'' (info_passphrase d) \<rparr>"

text \<open>
  The schema uses four JSON Schema keywords, read as draft-07 defines them:
  \<^verbatim>\<open>required\<close> (the property is present), \<^verbatim>\<open>oneOf\<close> (exactly one alternative
  matches), \<^verbatim>\<open>const\<close> (equality) and \<^verbatim>\<open>type: 'string'\<close>, which every value of
  \<^typ>\<open>NetworkInfo\<close> satisfies. \<open>conforms s d\<close>: the data \<open>d\<close> satisfy the schema.
\<close>

definition valid_value :: "StringProperty \<Rightarrow> string \<Rightarrow> bool" where
  "valid_value p v =
     (case oneOf p of
        None \<Rightarrow> True
      | Some alternatives \<Rightarrow> length (filter (\<lambda>a. const a = v) alternatives) = 1)"

definition conforms :: "JSONSchema \<Rightarrow> NetworkInfo \<Rightarrow> bool" where
  "conforms s d =
     (list_all (\<lambda>k. field d k \<noteq> None) (required s)
      \<and> list_all (\<lambda>(k, p). case field d k of None \<Rightarrow> True | Some v \<Rightarrow> valid_value p v)
           (properties s))"

text \<open>Validation of a state by the element: of its form data, the defaults filled in.\<close>

definition validate :: "JSONSchema \<Rightarrow> NetworkInfo \<Rightarrow> bool" where
  "validate s d = conforms s (getDefaultFormState s d)"

text \<open>
  Pressing the submit button: nothing happens while the button is disabled or the form
  data do not validate; otherwise \<^verbatim>\<open>onSubmit(formData)\<close> is called, and the result
  is the form data submitted.
\<close>

definition onFormSubmit :: "FormProps \<Rightarrow> NetworkInfo option" where
  "onFormSubmit f =
     (if submit_disabled f then None
      else (let formData = getDefaultFormState (form_schema f) (form_value f)
            in if conforms (form_schema f) formData then Some formData else None))"

section \<open>The connectivity loop: start-wifi-connect.sh\<close>

subsection \<open>Environment and observable events\<close>

text \<open>
  The script runs three external programs and expands one word list against the working
  directory. Each pass of the loop is given what they do on that pass: the exit status of
  \<^verbatim>\<open>wget\<close>, the output of \<^verbatim>\<open>hostname\<close>, the exit status of \<^verbatim>\<open>./wifi-connect\<close>,
  and, for a pattern, the sorted names of the files of the working directory that the
  pattern matches. The script waits for \<^verbatim>\<open>./wifi-connect\<close> however long it runs; a
  run that never exits is \<open>None\<close>. An exit status is a byte.
\<close>

type_synonym exit_status = "8 word"

record iteration =
  wget_status :: exit_status
  hostname_output :: string
  wifi_connect_status :: "exit_status option"
  pathname_matches :: "string \<Rightarrow> string list"

text \<open>
  What the script does, in order: \<open>WgetSpider url\<close> is \<^verbatim>\<open>wget --spider url\<close>,
  \<open>Print line\<close> is the \<^verbatim>\<open>printf\<close> of that line,
  \<open>WifiConnect args\<close> is the start of \<^verbatim>\<open>./wifi-connect args\<close> in the foreground,
  \<open>WifiConnectExit rc\<close> its exit, \<open>EchoExit rc\<close> the line
  \<^verbatim>\<open>wifi-connect exited with code: rc\<close>, \<open>Sleep n\<close> is \<^verbatim>\<open>sleep n\<close>.
\<close>

datatype event =
    WgetSpider string
  | Print string
  | WifiConnect "string list"
  | WifiConnectExit exit_status
  | EchoExit exit_status
  | Sleep nat

subsection \<open>Expansion of \<^verbatim>\<open>$(hostname)\<close>\<close>

text \<open>
  The command substitution is unquoted, so its output is split at spaces, tabs and
  newlines into words, and empty words vanish. \<open>w\<close> holds the current word, reversed.
\<close>

definition is_ifs :: "char \<Rightarrow> bool" where
  "is_ifs c = (c = CHR '' '' \<or> c = CHR 0x09 \<or> c = CHR 0x0A)"

fun split_words :: "string \<Rightarrow> string \<Rightarrow> string list" where
  "split_words w [] = (if w = [] then [] else [rev w])"
| "split_words w (c # cs) =
     (if is_ifs c then (if w = [] then split_words [] cs else rev w # split_words [] cs)
      else split_words (c # w) cs)"

text \<open>
  After word splitting comes pathname expansion: a word that contains \<^verbatim>\<open>*\<close>, \<^verbatim>\<open>?\<close>
  or \<^verbatim>\<open>[\<close> is a pattern, and is replaced by the sorted names of the files that it
  matches; when it matches none, and for every other word, the word stays as it is.
\<close>

definition is_glob_char :: "char \<Rightarrow> bool" where
  "is_glob_char c = (c = CHR ''*'' \<or> c = CHR ''?'' \<or> c = CHR ''['')"

definition pathname_expansion :: "iteration \<Rightarrow> string \<Rightarrow> string list" where
  "pathname_expansion it w =
     (if list_ex is_glob_char w then
        (case pathname_matches it w of [] \<Rightarrow> [w] | name # names \<Rightarrow> name # names)
      else [w])"

definition wifi_connect_args :: "iteration \<Rightarrow> string list" where
  "wifi_connect_args it =
     ''--portal-ssid''
       # concat (map (pathname_expansion it) (split_words [] (hostname_output it)))"

subsection \<open>The script\<close>

text \<open>\<^verbatim>\<open>check_internet\<close> runs the probe and returns its exit status (\<^verbatim>\<open>return $?\<close>).\<close>

definition check_internet :: "iteration \<Rightarrow> event list \<times> exit_status" where
  "check_internet it = ([WgetSpider ''http://google.com''], wget_status it)"

text \<open>
  One pass of \<^verbatim>\<open>while true\<close>. The second component tells whether the pass ends:
  it does not when \<^verbatim>\<open>./wifi-connect\<close>, run in the foreground, never exits.
\<close>

definition loop_body :: "iteration \<Rightarrow> event list \<times> bool" where
  "loop_body it =
     (let (probe, status) = check_internet it in
      if status = 0 then
        (probe @ [Print ''Internet connection is available. Skipping WiFi Connect.'',
                  Sleep 10], True)
      else
        (case wifi_connect_status it of
           None \<Rightarrow>
             (probe @ [Print ''Internet connection is unavailable. Starting WiFi Connect.'',
                       WifiConnect (wifi_connect_args it)], False)
         | Some rc \<Rightarrow>
             (probe @ [Print ''Internet connection is unavailable. Starting WiFi Connect.'',
                       WifiConnect (wifi_connect_args it),
                       WifiConnectExit rc,
                       Sleep 10], True)))"

text \<open>
  The version of the script kept beside the Dockerfile records the exit status in
  \<^verbatim>\<open>success\<close> and sleeps (60 seconds) only when \<^verbatim>\<open>$success -eq 0\<close>.
\<close>

definition loop_body_success :: "iteration \<Rightarrow> event list \<times> bool" where
  "loop_body_success it =
     (let (probe, status) = check_internet it in
      if status = 0 then
        (let success = (0 :: exit_status) in
           (probe @ [Print ''Internet connection is available. Skipping WiFi Connect.'']
                  @ (if success = 0 then [Sleep 60] else []), True))
      else
        (case wifi_connect_status it of
           None \<Rightarrow>
             (probe @ [Print ''Internet connection is unavailable. Starting WiFi Connect.'',
                       WifiConnect (wifi_connect_args it)], False)
         | Some rc \<Rightarrow>
             (let success = rc in
                (probe @ [Print ''Internet connection is unavailable. Starting WiFi Connect.'',
                          WifiConnect (wifi_connect_args it),
                          WifiConnectExit rc,
                          EchoExit success]
                       @ (if success = 0 then [Sleep 60] else []), True))))"

text \<open>
  \<^verbatim>\<open>while true; do body; done\<close> never returns. Its behaviour is the sequence of events
  it produces; \<open>while_true body its\<close> is the sequence produced on the passes described
  by \<open>its\<close>, cut short where a pass does not end.
\<close>

fun while_true :: "(iteration \<Rightarrow> event list \<times> bool) \<Rightarrow> iteration list \<Rightarrow> event list" where
  "while_true body [] = []"
| "while_true body (it # its) =
     (let (events, ended) = body it in
      if ended then events @ while_true body its else events)"

definition start_wifi_connect :: "iteration list \<Rightarrow> event list" where
  "start_wifi_connect = while_true loop_body"

definition start_wifi_connect_success :: "iteration list \<Rightarrow> event list" where
  "start_wifi_connect_success = while_true loop_body_success"

subsection \<open>The status the loop reads off the probe\<close>

datatype ConnectivityStatus = Online | Offline

text \<open>The loop's test \<^verbatim>\<open>[ $? -eq 0 ]\<close> on the return value of \<^verbatim>\<open>check_internet\<close>.\<close>

definition checkConnectivity :: "iteration \<Rightarrow> ConnectivityStatus" where
  "checkConnectivity it = (if snd (check_internet it) = 0 then Online else Offline)"

subsection \<open>Properties of event sequences\<close>

text \<open>
  \<open>max_active a es\<close>: the largest number of sessions running at once during \<open>es\<close>,
  when \<open>a\<close> are running at its start.
\<close>

fun max_active :: "nat \<Rightarrow> event list \<Rightarrow> nat" where
  "max_active a [] = a"
| "max_active a (WifiConnect args # es) = max a (max_active (a + 1) es)"
| "max_active a (WifiConnectExit rc # es) = max a (max_active (a - 1) es)"
| "max_active a (e # es) = max_active a es"

text \<open>
  \<open>sessions_sequential active es\<close>: a session starts only while none is running, and the
  probe runs only while none is running.
\<close>

fun sessions_sequential :: "bool \<Rightarrow> event list \<Rightarrow> bool" where
  "sessions_sequential active [] = True"
| "sessions_sequential active (WifiConnect args # es) =
     (\<not> active \<and> sessions_sequential True es)"
| "sessions_sequential active (WifiConnectExit rc # es) =
     (active \<and> sessions_sequential False es)"
| "sessions_sequential active (WgetSpider url # es) =
     (\<not> active \<and> sessions_sequential active es)"
| "sessions_sequential active (e # es) = sessions_sequential active es"

definition is_session_start :: "event \<Rightarrow> bool" where
  "is_session_start e = (case e of WifiConnect args \<Rightarrow> True | _ \<Rightarrow> False)"

text \<open>\<open>sleeps_before_probe es\<close>: \<open>es\<close> sleeps before it probes again (if it does).\<close>

fun sleeps_before_probe :: "event list \<Rightarrow> bool" where
  "sleeps_before_probe [] = True"
| "sleeps_before_probe (Sleep n # es) = (0 < n)"
| "sleeps_before_probe (WgetSpider url # es) = False"
| "sleeps_before_probe (e # es) = sleeps_before_probe es"

text \<open>
  \<open>backoff_after_failure es\<close>: after every session that exits with a non-zero status,
  the loop sleeps before the next probe.
\<close>

fun backoff_after_failure :: "event list \<Rightarrow> bool" where
  "backoff_after_failure [] = True"
| "backoff_after_failure (WifiConnectExit rc # es) =
     ((rc = 0 \<or> sleeps_before_probe es) \<and> backoff_after_failure es)"
| "backoff_after_failure (e # es) = backoff_after_failure es"

section \<open>The access-point session\<close>

text \<open>
  Modelled from the spec: the session manager, that is the \<^verbatim>\<open>wifi-connect\<close> program
  which the script starts, is not among the sources; of a session the sources hold only
  the notices of the configuration page. The definitions of this section follow the
  specification's data model (section 3), its session state machine and policy (section
  4.2) and its error taxonomy (section 7).
\<close>

datatype SessionState = Scanning | AwaitingSubmission | Applying | Succeeded | Failed

datatype Error =
    ProbeTimeout | ScanFailure | AccessPointStartFailure | SubmissionRejected
  | JoinCredentialInvalid | JoinTimeout | JoinAssociationFailure | SessionTimeout

record CredentialSubmission =
  cred_ssid :: string
  cred_identity :: "string option"
  cred_passphrase :: "string option"

text \<open>
  Modelled from the spec: \<open>PortalSession\<close> has the three fields of section 3 (the last
  error is kept as the error itself rather than as its text). The manager that owns it
  also knows whether the access point and the local web server are up, the current
  listing, the submission being applied, and whether completion has been signalled to
  the Connectivity Loop.
\<close>

record PortalSession =
  state :: SessionState
  startedAt :: nat
  lastError :: "Error option"

record SessionManager = PortalSession +
  accessPointUp :: bool
  networks :: "Network list"
  applying :: "CredentialSubmission option"
  completionSignalled :: bool

text \<open>
  Modelled from the spec: the three ways a join attempt fails (bad credentials,
  association failure, timeout), and what reaches the manager: the outcome of bringing
  the access point up and listing the networks, a submission, a rescan request, the
  outcome of the join collaborator, the session timeout.
\<close>

datatype JoinFailure = BadCredentials | AssociationFailed | JoinTimedOut

fun join_error :: "JoinFailure \<Rightarrow> Error" where
  "join_error BadCredentials = JoinCredentialInvalid"
| "join_error AssociationFailed = JoinAssociationFailure"
| "join_error JoinTimedOut = JoinTimeout"

datatype SessionEvent =
    NetworksListed "Network list"
  | AccessPointNotStarted
  | ScanNotCompleted
  | Submit CredentialSubmission
  | RescanRequest
  | JoinSucceeded
  | JoinFailed JoinFailure
  | SessionTimedOut

text \<open>
  Modelled from the spec: a session starts in \<open>Scanning\<close>; the terminal states tear
  down the access point and the local web server and signal completion.
\<close>

definition start_session :: "nat \<Rightarrow> SessionManager" where
  "start_session t =
     \<lparr> state = Scanning, startedAt = t, lastError = None,
       accessPointUp = False, networks = [], applying = None,
       completionSignalled = False \<rparr>"

definition terminate :: "SessionState \<Rightarrow> Error option \<Rightarrow> SessionManager \<Rightarrow> SessionManager" where
  "terminate final err m =
     m\<lparr> state := final, lastError := err, accessPointUp := False, applying := None,
        completionSignalled := True \<rparr>"

text \<open>
  Modelled from the spec: the transitions of section 4.2, which the missing session
  manager is to make. A submission is accepted only in \<open>AwaitingSubmission\<close> and is
  rejected elsewhere (\<open>Inl SubmissionRejected\<close>, the session unchanged). Of a failed
  join section 4.2 says that the session retains \<open>lastError\<close> and returns to
  \<open>Scanning\<close>, and its policy that the attempt does not terminate the session and
  that the access point stays up: the step ends in \<open>Scanning\<close> and tears nothing
  down. The session timeout and success end the session (section 4.2), and so do the
  failures to scan and to start the access point (section 7). An event that a state does
  not wait for leaves the session as it is.
\<close>

definition step :: "SessionManager \<Rightarrow> SessionEvent \<Rightarrow> Error + SessionManager" where
  "step m ev =
     (case state m of
        Scanning \<Rightarrow>
          (case ev of
             NetworksListed nets \<Rightarrow>
               Inr (m\<lparr> state := AwaitingSubmission, accessPointUp := True, networks := nets \<rparr>)
           | AccessPointNotStarted \<Rightarrow> Inr (terminate Failed (Some AccessPointStartFailure) m)
           | ScanNotCompleted \<Rightarrow> Inr (terminate Failed (Some ScanFailure) m)
           | SessionTimedOut \<Rightarrow> Inr (terminate Failed (Some SessionTimeout) m)
           | Submit c \<Rightarrow> Inl SubmissionRejected
           | _ \<Rightarrow> Inr m)
      | AwaitingSubmission \<Rightarrow>
          (case ev of
             Submit c \<Rightarrow> Inr (m\<lparr> state := Applying, applying := Some c \<rparr>)
           | RescanRequest \<Rightarrow> Inr (m\<lparr> state := Scanning, networks := [] \<rparr>)
           | SessionTimedOut \<Rightarrow> Inr (terminate Failed (Some SessionTimeout) m)
           | _ \<Rightarrow> Inr m)
      | Applying \<Rightarrow>
          (case ev of
             JoinSucceeded \<Rightarrow> Inr (terminate Succeeded (lastError m) m)
           | JoinFailed f \<Rightarrow>
               Inr (m\<lparr> state := Scanning, lastError := Some (join_error f), applying := None \<rparr>)
           | SessionTimedOut \<Rightarrow> Inr (terminate Failed (Some SessionTimeout) m)
           | Submit c \<Rightarrow> Inl SubmissionRejected
           | _ \<Rightarrow> Inr m)
      | Succeeded \<Rightarrow> (case ev of Submit c \<Rightarrow> Inl SubmissionRejected | _ \<Rightarrow> Inr m)
      | Failed \<Rightarrow> (case ev of Submit c \<Rightarrow> Inl SubmissionRejected | _ \<Rightarrow> Inr m))"

text \<open>A session driven by a sequence of events; a rejected event changes nothing.\<close>

fun run :: "SessionManager \<Rightarrow> SessionEvent list \<Rightarrow> SessionManager" where
  "run m [] = m"
| "run m (ev # evs) = run (case step m ev of Inl err \<Rightarrow> m | Inr m' \<Rightarrow> m') evs"

definition terminal :: "SessionManager \<Rightarrow> bool" where
  "terminal m = (state m = Succeeded \<or> state m = Failed)"





text \<open>What holds of every session that events can lead to.\<close>

definition session_inv :: "SessionManager \<Rightarrow> bool" where
  "session_inv m \<longleftrightarrow>
     ((state m = AwaitingSubmission \<or> state m = Applying) \<longrightarrow> accessPointUp m)
     \<and> (completionSignalled m \<longleftrightarrow> terminal m)"

section \<open>Properties of the form\<close>

lemma isEnterpriseNetwork_iff:
  "isEnterpriseNetwork nets sel
     \<longleftrightarrow> (\<exists>n \<in> set nets. Some (ssid n) = sel \<and> security n = ''enterprise'')"
  by (simp add: isEnterpriseNetwork_def list_ex_iff)

lemma identity_shown_iff:
  "identity_shown (NetworkInfoForm nets d) \<longleftrightarrow> isEnterpriseNetwork nets (info_ssid d)"
  by (simp add: identity_shown_def NetworkInfoForm_def getUiSchema_def Let_def)

lemma filter_const_map:
  "filter (\<lambda>a. const a = v)
     (map (\<lambda>network. \<lparr> const = ssid network, const_title = ssid network \<rparr>) nets)
   = map (\<lambda>network. \<lparr> const = ssid network, const_title = ssid network \<rparr>)
       (filter (\<lambda>n. ssid n = v) nets)"
  by (induction nets) simp_all

text \<open>The form data that the element makes of a state, for the schema of the component.\<close>

lemma getDefaultFormState_getSchema:
  "getDefaultFormState (getSchema nets) d =
     \<lparr> info_ssid = (case info_ssid d of
                      None \<Rightarrow> (case nets of [] \<Rightarrow> None | n # _ \<Rightarrow> Some (ssid n))
                    | Some v \<Rightarrow> Some v),
       info_identity = Some (case info_identity d of None \<Rightarrow> '''' | Some v \<Rightarrow> v),
       info_passphrase = Some (case info_passphrase d of None \<Rightarrow> '''' | Some v \<Rightarrow> v) \<rparr>"
  by (simp add: getDefaultFormState_def with_default_def default_of_def getSchema_def
      split: option.split)

text \<open>
  Data satisfy the schema exactly when the ssid is there and is the ssid of exactly one
  listed network.
\<close>

lemma conforms_getSchema:
  "conforms (getSchema nets) d
     \<longleftrightarrow> (\<exists>s. info_ssid d = Some s \<and> length (filter (\<lambda>n. ssid n = s) nets) = 1)"
  by (cases "info_ssid d")
     (simp_all add: conforms_def getSchema_def field_def valid_value_def filter_const_map
        split: option.split)

lemma onFormSubmit_NetworkInfoForm:
  "onFormSubmit (NetworkInfoForm nets d) =
     (if nets \<noteq> [] \<and> validate (getSchema nets) d
      then Some (getDefaultFormState (getSchema nets) d) else None)"
  by (simp add: onFormSubmit_def NetworkInfoForm_def validate_def Let_def)

lemma onFormSubmit_Some:
  assumes "onFormSubmit (NetworkInfoForm nets d) = Some d'"
  shows "nets \<noteq> [] \<and> d' = getDefaultFormState (getSchema nets) d
         \<and> (\<exists>n \<in> set nets. info_ssid d' = Some (ssid n))"
proof -
  from assms have v: "nets \<noteq> []" "conforms (getSchema nets) d'"
      "d' = getDefaultFormState (getSchema nets) d"
    by (auto simp: onFormSubmit_NetworkInfoForm validate_def split: if_splits)
  then obtain s where s: "info_ssid d' = Some s" "length (filter (\<lambda>n. ssid n = s) nets) = 1"
    unfolding conforms_getSchema by blast
  then have "filter (\<lambda>n. ssid n = s) nets \<noteq> []" by auto
  then obtain n where "n \<in> set nets" "ssid n = s"
    by (metis (mono_tags, lifting) filter_False)
  with s v show ?thesis by auto
qed

subsection \<open>Required fields\<close>

text \<open>
  C1, as stated, fails: validation would have to require the identity when the selected
  network is Enterprise and the passphrase when it is not Open. With the enterprise
  network \<open>Corp\<close> selected and neither identity nor passphrase entered (the fields
  undefined in the state, or empty), the form is submitted, with the empty string for
  both.
\<close>

theorem validation_requires_identity_counterexample:
  "isEnterpriseNetwork [\<lparr>ssid = ''Corp'', security = ''enterprise''\<rparr>] (Some ''Corp'')
   \<and> security \<lparr>ssid = ''Corp'', security = ''enterprise''\<rparr> \<noteq> ''open''
   \<and> onFormSubmit (NetworkInfoForm [\<lparr>ssid = ''Corp'', security = ''enterprise''\<rparr>]
        \<lparr>info_ssid = Some ''Corp'', info_identity = None, info_passphrase = None\<rparr>)
      = Some \<lparr>info_ssid = Some ''Corp'', info_identity = Some '''', info_passphrase = Some ''''\<rparr>
   \<and> onFormSubmit (NetworkInfoForm [\<lparr>ssid = ''Corp'', security = ''enterprise''\<rparr>]
        \<lparr>info_ssid = Some ''Corp'', info_identity = Some '''', info_passphrase = Some ''''\<rparr>)
      = Some \<lparr>info_ssid = Some ''Corp'', info_identity = Some '''', info_passphrase = Some ''''\<rparr>"
  by (simp add: onFormSubmit_NetworkInfoForm validate_def conforms_getSchema
      getDefaultFormState_getSchema isEnterpriseNetwork_def)

text \<open>
  C1, amended: validation requires the ssid only. The form data are the state with the
  schema's defaults filled in, so their ssid is the state's or else the first listed
  network's. They validate exactly when that ssid is there and is the ssid of exactly
  one listed network; the identity and the passphrase have no influence on validation,
  whatever the security of the selected network; \<^verbatim>\<open>required\<close> lists the ssid alone;
  form data without ssid do not validate, and every submission carries an ssid.
\<close>

theorem validation_requires_ssid_only:
  "(validate (getSchema nets) d
      \<longleftrightarrow> (\<exists>s. info_ssid (getDefaultFormState (getSchema nets) d) = Some s
               \<and> length (filter (\<lambda>n. ssid n = s) nets) = 1))
   \<and> info_ssid (getDefaultFormState (getSchema nets) d) =
       (case info_ssid d of
          None \<Rightarrow> (case nets of [] \<Rightarrow> None | n # _ \<Rightarrow> Some (ssid n))
        | Some v \<Rightarrow> Some v)
   \<and> validate (getSchema nets) (d\<lparr>info_identity := i, info_passphrase := p\<rparr>)
       = validate (getSchema nets) d
   \<and> required (getSchema nets) = [''ssid'']
   \<and> (info_ssid (getDefaultFormState (getSchema nets) d) = None
        \<longrightarrow> \<not> validate (getSchema nets) d)
   \<and> (onFormSubmit (NetworkInfoForm nets d) = Some d' \<longrightarrow> info_ssid d' \<noteq> None)"
proof (intro conjI)
  show "validate (getSchema nets) d
      \<longleftrightarrow> (\<exists>s. info_ssid (getDefaultFormState (getSchema nets) d) = Some s
               \<and> length (filter (\<lambda>n. ssid n = s) nets) = 1)"
    by (simp add: validate_def conforms_getSchema)
next
  show "info_ssid (getDefaultFormState (getSchema nets) d) =
       (case info_ssid d of
          None \<Rightarrow> (case nets of [] \<Rightarrow> None | n # _ \<Rightarrow> Some (ssid n))
        | Some v \<Rightarrow> Some v)"
    by (simp add: getDefaultFormState_getSchema)
next
  show "validate (getSchema nets) (d\<lparr>info_identity := i, info_passphrase := p\<rparr>)
       = validate (getSchema nets) d"
    by (simp add: validate_def conforms_getSchema getDefaultFormState_getSchema)
next
  show "required (getSchema nets) = [''ssid'']"
    by (simp add: getSchema_def)
next
  show "info_ssid (getDefaultFormState (getSchema nets) d) = None
        \<longrightarrow> \<not> validate (getSchema nets) d"
    by (simp add: validate_def conforms_getSchema)
next
  show "onFormSubmit (NetworkInfoForm nets d) = Some d' \<longrightarrow> info_ssid d' \<noteq> None"
    using onFormSubmit_Some by fastforce
qed

theorem validation_requires_ssid_only_witness:
  "validate (getSchema [\<lparr>ssid = ''Corp'', security = ''enterprise''\<rparr>])
     \<lparr>info_ssid = None, info_identity = None, info_passphrase = None\<rparr>
   \<and> info_ssid (getDefaultFormState (getSchema [])
        \<lparr>info_ssid = None, info_identity = Some ''me'', info_passphrase = Some ''secret''\<rparr>) = None
   \<and> \<not> validate (getSchema [])
        \<lparr>info_ssid = None, info_identity = Some ''me'', info_passphrase = Some ''secret''\<rparr>
   \<and> onFormSubmit (NetworkInfoForm [\<lparr>ssid = ''Corp'', security = ''enterprise''\<rparr>]
        \<lparr>info_ssid = None, info_identity = None, info_passphrase = None\<rparr>)
      = Some \<lparr>info_ssid = Some ''Corp'', info_identity = Some '''', info_passphrase = Some ''''\<rparr>"
  using validation_requires_ssid_only
      [of "[\<lparr>ssid = ''Corp'', security = ''enterprise''\<rparr>]"
          "\<lparr>info_ssid = None, info_identity = None, info_passphrase = None\<rparr>" _ _
          "\<lparr>info_ssid = Some ''Corp'', info_identity = Some '''', info_passphrase = Some ''''\<rparr>"]
    validation_requires_ssid_only
      [of "[]"
          "\<lparr>info_ssid = None, info_identity = Some ''me'', info_passphrase = Some ''secret''\<rparr>"]
  by (simp add: onFormSubmit_NetworkInfoForm getDefaultFormState_getSchema)

subsection \<open>The ssid of a submission\<close>

text \<open>
  C6, as stated, fails: with no network listed, a typed ssid could be submitted. On the
  empty list the submit button is disabled and pressing it submits nothing.
\<close>

theorem typed_ssid_counterexample:
  "submit_disabled (NetworkInfoForm []
      \<lparr>info_ssid = Some ''MyNet'', info_identity = None, info_passphrase = Some ''secret''\<rparr>)
   \<and> onFormSubmit (NetworkInfoForm []
      \<lparr>info_ssid = Some ''MyNet'', info_identity = None, info_passphrase = Some ''secret''\<rparr>) = None"
  by (simp add: onFormSubmit_def NetworkInfoForm_def Let_def)

text \<open>
  C6, amended: what is submitted are the form data, the state with the schema's defaults
  filled in, and their ssid is the ssid of a network currently listed: the one in the
  state, or, when the state has none, the first listed network's. When the list is empty
  the submit button is disabled and nothing can be submitted.
\<close>

theorem submitted_ssid_is_listed:
  "(onFormSubmit (NetworkInfoForm nets d) = Some d' \<longrightarrow>
      nets \<noteq> [] \<and> d' = getDefaultFormState (getSchema nets) d
      \<and> (\<exists>n \<in> set nets. info_ssid d' = Some (ssid n)))
   \<and> (onFormSubmit (NetworkInfoForm nets d) = Some d' \<and> info_ssid d = Some s \<longrightarrow>
      info_ssid d' = Some s)
   \<and> (onFormSubmit (NetworkInfoForm nets d) = Some d' \<and> info_ssid d = None \<longrightarrow>
      (\<exists>n rest. nets = n # rest \<and> info_ssid d' = Some (ssid n)))
   \<and> (nets = [] \<longrightarrow>
      submit_disabled (NetworkInfoForm nets d) \<and> onFormSubmit (NetworkInfoForm nets d) = None)"
proof (intro conjI)
  show "onFormSubmit (NetworkInfoForm nets d) = Some d' \<longrightarrow>
      nets \<noteq> [] \<and> d' = getDefaultFormState (getSchema nets) d
      \<and> (\<exists>n \<in> set nets. info_ssid d' = Some (ssid n))"
    using onFormSubmit_Some by blast
next
  show "onFormSubmit (NetworkInfoForm nets d) = Some d' \<and> info_ssid d = Some s \<longrightarrow>
      info_ssid d' = Some s"
    by (auto simp: onFormSubmit_NetworkInfoForm getDefaultFormState_getSchema split: if_splits)
next
  show "onFormSubmit (NetworkInfoForm nets d) = Some d' \<and> info_ssid d = None \<longrightarrow>
      (\<exists>n rest. nets = n # rest \<and> info_ssid d' = Some (ssid n))"
    by (cases nets)
       (auto simp: onFormSubmit_NetworkInfoForm getDefaultFormState_getSchema split: if_splits)
next
  show "nets = [] \<longrightarrow>
      submit_disabled (NetworkInfoForm nets d) \<and> onFormSubmit (NetworkInfoForm nets d) = None"
    by (simp add: onFormSubmit_def NetworkInfoForm_def Let_def)
qed

theorem submitted_ssid_is_listed_witness:
  "onFormSubmit (NetworkInfoForm [\<lparr>ssid = ''Home'', security = ''wpa''\<rparr>]
      \<lparr>info_ssid = Some ''Home'', info_identity = None, info_passphrase = Some ''secret123''\<rparr>)
     = Some \<lparr>info_ssid = Some ''Home'', info_identity = Some '''', info_passphrase = Some ''secret123''\<rparr>
   \<and> onFormSubmit (NetworkInfoForm
        [\<lparr>ssid = ''Home'', security = ''wpa''\<rparr>, \<lparr>ssid = ''Cafe'', security = ''open''\<rparr>]
        \<lparr>info_ssid = None, info_identity = None, info_passphrase = None\<rparr>)
     = Some \<lparr>info_ssid = Some ''Home'', info_identity = Some '''', info_passphrase = Some ''''\<rparr>
   \<and> onFormSubmit (NetworkInfoForm []
      \<lparr>info_ssid = Some ''Home'', info_identity = None, info_passphrase = Some ''secret123''\<rparr>) = None"
  using submitted_ssid_is_listed
      [of "[\<lparr>ssid = ''Home'', security = ''wpa''\<rparr>]"
          "\<lparr>info_ssid = Some ''Home'', info_identity = None, info_passphrase = Some ''secret123''\<rparr>"
          "\<lparr>info_ssid = Some ''Home'', info_identity = Some '''', info_passphrase = Some ''secret123''\<rparr>"
          "''Home''"]
    submitted_ssid_is_listed
      [of "[\<lparr>ssid = ''Home'', security = ''wpa''\<rparr>, \<lparr>ssid = ''Cafe'', security = ''open''\<rparr>]"
          "\<lparr>info_ssid = None, info_identity = None, info_passphrase = None\<rparr>"
          "\<lparr>info_ssid = Some ''Home'', info_identity = Some '''', info_passphrase = Some ''''\<rparr>"]
    submitted_ssid_is_listed
      [of "[]" "\<lparr>info_ssid = Some ''Home'', info_identity = None, info_passphrase = Some ''secret123''\<rparr>"]
  by (simp add: onFormSubmit_NetworkInfoForm validate_def conforms_getSchema
      getDefaultFormState_getSchema)

subsection \<open>The identity field\<close>

text \<open>
  C10: the form shows the identity field if and only if some listed network has exactly
  the selected ssid and security \<^verbatim>\<open>'enterprise'\<close>. So when two listed networks share an
  ssid and one of them is Enterprise, selecting that ssid shows the field, whatever the
  security of the other.
\<close>

theorem identity_field_shown:
  "(identity_shown (NetworkInfoForm nets d)
      \<longleftrightarrow> (\<exists>n \<in> set nets. Some (ssid n) = info_ssid d \<and> security n = ''enterprise''))
   \<and> (n1 \<in> set nets \<and> n2 \<in> set nets \<and> ssid n1 = s \<and> ssid n2 = s
        \<and> security n1 = ''enterprise'' \<and> info_ssid d = Some s
      \<longrightarrow> identity_shown (NetworkInfoForm nets d))"
  unfolding identity_shown_iff isEnterpriseNetwork_iff by auto

theorem identity_field_shown_witness:
  "identity_shown (NetworkInfoForm
      [\<lparr>ssid = ''Office'', security = ''wpa''\<rparr>, \<lparr>ssid = ''Office'', security = ''enterprise''\<rparr>]
      \<lparr>info_ssid = Some ''Office'', info_identity = None, info_passphrase = None\<rparr>)"
  using identity_field_shown
    [of "[\<lparr>ssid = ''Office'', security = ''wpa''\<rparr>, \<lparr>ssid = ''Office'', security = ''enterprise''\<rparr>]"
        "\<lparr>info_ssid = Some ''Office'', info_identity = None, info_passphrase = None\<rparr>"
        "\<lparr>ssid = ''Office'', security = ''enterprise''\<rparr>"
        "\<lparr>ssid = ''Office'', security = ''wpa''\<rparr>" "''Office''"]
  by simp

section \<open>Properties of the connectivity loop\<close>

lemma while_true_Cons:
  "while_true body (it # its) =
     fst (body it) @ (if snd (body it) then while_true body its else [])"
  by (cases "body it") simp

lemma loop_body_cases:
  "loop_body it =
     (if wget_status it = 0 then
        ([WgetSpider ''http://google.com'',
          Print ''Internet connection is available. Skipping WiFi Connect.'',
          Sleep 10], True)
      else case wifi_connect_status it of
        None \<Rightarrow>
          ([WgetSpider ''http://google.com'',
            Print ''Internet connection is unavailable. Starting WiFi Connect.'',
            WifiConnect (wifi_connect_args it)], False)
      | Some rc \<Rightarrow>
          ([WgetSpider ''http://google.com'',
            Print ''Internet connection is unavailable. Starting WiFi Connect.'',
            WifiConnect (wifi_connect_args it),
            WifiConnectExit rc,
            Sleep 10], True))"
  by (simp add: loop_body_def check_internet_def split: option.split)

lemma loop_body_success_cases:
  "loop_body_success it =
     (if wget_status it = 0 then
        ([WgetSpider ''http://google.com'',
          Print ''Internet connection is available. Skipping WiFi Connect.'',
          Sleep 60], True)
      else case wifi_connect_status it of
        None \<Rightarrow>
          ([WgetSpider ''http://google.com'',
            Print ''Internet connection is unavailable. Starting WiFi Connect.'',
            WifiConnect (wifi_connect_args it)], False)
      | Some rc \<Rightarrow>
          ([WgetSpider ''http://google.com'',
            Print ''Internet connection is unavailable. Starting WiFi Connect.'',
            WifiConnect (wifi_connect_args it),
            WifiConnectExit rc,
            EchoExit rc] @ (if rc = 0 then [Sleep 60] else []), True))"
  by (simp add: loop_body_success_def check_internet_def Let_def split: option.split)

lemma sequential_loop: "sessions_sequential False (while_true loop_body its)"
  by (induction its) (simp_all add: while_true_Cons loop_body_cases split: option.split)

lemma sequential_loop_success: "sessions_sequential False (while_true loop_body_success its)"
  by (induction its) (simp_all add: while_true_Cons loop_body_success_cases split: option.split)

lemma max_active_loop: "max_active 0 (while_true loop_body its) \<le> 1"
  by (induction its) (simp_all add: while_true_Cons loop_body_cases split: option.split)

lemma max_active_loop_success: "max_active 0 (while_true loop_body_success its) \<le> 1"
  by (induction its) (simp_all add: while_true_Cons loop_body_success_cases split: option.split)

lemma backoff_loop: "backoff_after_failure (while_true loop_body its)"
  by (induction its) (simp_all add: while_true_Cons loop_body_cases split: option.split)

lemma split_words_plain:
  "\<forall>c \<in> set cs. \<not> is_ifs c \<Longrightarrow> is_ifs d \<Longrightarrow>
   split_words w (cs @ [d]) = (if w = [] \<and> cs = [] then [] else [rev w @ cs])"
  by (induction cs arbitrary: w) auto

subsection \<open>One session at a time\<close>

text \<open>
  C2: whatever the probes report and the sessions do, at most one session is running at
  any time, a session starts only while none is running, and the probe runs only while
  none is running. This holds of both versions of the script.
\<close>

theorem one_session_at_a_time:
  "max_active 0 (start_wifi_connect its) \<le> 1
   \<and> sessions_sequential False (start_wifi_connect its)
   \<and> max_active 0 (start_wifi_connect_success its) \<le> 1
   \<and> sessions_sequential False (start_wifi_connect_success its)"
  unfolding start_wifi_connect_def start_wifi_connect_success_def
  using sequential_loop sequential_loop_success max_active_loop max_active_loop_success
  by blast

theorem one_session_at_a_time_witness:
  "max_active 0 (start_wifi_connect [\<lparr>wget_status = 4, hostname_output = ''hub'' @ [CHR 0x0A], wifi_connect_status = Some 1, pathname_matches = (\<lambda>p. [])\<rparr>, \<lparr>wget_status = 4, hostname_output = ''hub'' @ [CHR 0x0A], wifi_connect_status = Some 1, pathname_matches = (\<lambda>p. [])\<rparr>, \<lparr>wget_status = 0, hostname_output = ''hub'' @ [CHR 0x0A], wifi_connect_status = None, pathname_matches = (\<lambda>p. [])\<rparr>]) = 1
   \<and> sessions_sequential False (start_wifi_connect [\<lparr>wget_status = 4, hostname_output = ''hub'' @ [CHR 0x0A], wifi_connect_status = Some 1, pathname_matches = (\<lambda>p. [])\<rparr>, \<lparr>wget_status = 4, hostname_output = ''hub'' @ [CHR 0x0A], wifi_connect_status = Some 1, pathname_matches = (\<lambda>p. [])\<rparr>, \<lparr>wget_status = 0, hostname_output = ''hub'' @ [CHR 0x0A], wifi_connect_status = None, pathname_matches = (\<lambda>p. [])\<rparr>])"
  using one_session_at_a_time [of "[\<lparr>wget_status = 4, hostname_output = ''hub'' @ [CHR 0x0A], wifi_connect_status = Some 1, pathname_matches = (\<lambda>p. [])\<rparr>, \<lparr>wget_status = 4, hostname_output = ''hub'' @ [CHR 0x0A], wifi_connect_status = Some 1, pathname_matches = (\<lambda>p. [])\<rparr>, \<lparr>wget_status = 0, hostname_output = ''hub'' @ [CHR 0x0A], wifi_connect_status = None, pathname_matches = (\<lambda>p. [])\<rparr>]"]
  by (simp add: start_wifi_connect_def loop_body_cases)

subsection \<open>The probe\<close>

text \<open>
  C3: the status is Online only when the probe exits with status 0; every non-zero exit
  status of the probe is Offline, and that is when the loop starts a session.
\<close>

theorem probe_status:
  "(checkConnectivity it = Online \<longleftrightarrow> wget_status it = 0)
   \<and> (checkConnectivity it = Offline \<longleftrightarrow> wget_status it \<noteq> 0)
   \<and> (list_ex is_session_start (fst (loop_body it)) \<longleftrightarrow> checkConnectivity it = Offline)"
  by (simp add: checkConnectivity_def check_internet_def loop_body_cases is_session_start_def
      split: option.split)

theorem probe_status_witness:
  "checkConnectivity \<lparr>wget_status = 4, hostname_output = ''hub'' @ [CHR 0x0A], wifi_connect_status = None, pathname_matches = (\<lambda>p. [])\<rparr> = Offline \<and> checkConnectivity \<lparr>wget_status = 0, hostname_output = ''hub'' @ [CHR 0x0A], wifi_connect_status = None, pathname_matches = (\<lambda>p. [])\<rparr> = Online"
  using probe_status [of "\<lparr>wget_status = 4, hostname_output = ''hub'' @ [CHR 0x0A], wifi_connect_status = None, pathname_matches = (\<lambda>p. [])\<rparr>"] probe_status [of "\<lparr>wget_status = 0, hostname_output = ''hub'' @ [CHR 0x0A], wifi_connect_status = None, pathname_matches = (\<lambda>p. [])\<rparr>"]
  by simp

subsection \<open>One pass of the loop\<close>

text \<open>
  C7: on every pass, if the probe reports Online no session is started and the loop goes
  on to the next pass; if it reports Offline exactly one session is started, and the
  loop goes on to the next pass once that session has exited, not before.
\<close>

theorem loop_iteration:
  "start_wifi_connect (it # its) =
     fst (loop_body it) @ (if snd (loop_body it) then start_wifi_connect its else [])
   \<and> (checkConnectivity it = Online \<longrightarrow>
        fst (loop_body it) =
          [WgetSpider ''http://google.com'',
           Print ''Internet connection is available. Skipping WiFi Connect.'',
           Sleep 10]
        \<and> snd (loop_body it))
   \<and> (checkConnectivity it = Offline \<longrightarrow>
        length (filter is_session_start (fst (loop_body it))) = 1
        \<and> (snd (loop_body it) \<longleftrightarrow> wifi_connect_status it \<noteq> None)
        \<and> (\<forall>rc. wifi_connect_status it = Some rc \<longrightarrow>
              fst (loop_body it) =
                [WgetSpider ''http://google.com'',
                 Print ''Internet connection is unavailable. Starting WiFi Connect.'',
                 WifiConnect (wifi_connect_args it),
                 WifiConnectExit rc,
                 Sleep 10]))"
  by (simp add: start_wifi_connect_def while_true_Cons checkConnectivity_def check_internet_def
      loop_body_cases is_session_start_def split: option.split)

theorem loop_iteration_witness:
  "checkConnectivity \<lparr>wget_status = 0, hostname_output = ''hub'' @ [CHR 0x0A], wifi_connect_status = None, pathname_matches = (\<lambda>p. [])\<rparr> = Online
   \<and> fst (loop_body \<lparr>wget_status = 0, hostname_output = ''hub'' @ [CHR 0x0A], wifi_connect_status = None, pathname_matches = (\<lambda>p. [])\<rparr>) =
       [WgetSpider ''http://google.com'',
        Print ''Internet connection is available. Skipping WiFi Connect.'',
        Sleep 10]
   \<and> checkConnectivity \<lparr>wget_status = 4, hostname_output = ''hub'' @ [CHR 0x0A], wifi_connect_status = Some 1, pathname_matches = (\<lambda>p. [])\<rparr> = Offline
   \<and> wifi_connect_status \<lparr>wget_status = 4, hostname_output = ''hub'' @ [CHR 0x0A], wifi_connect_status = Some 1, pathname_matches = (\<lambda>p. [])\<rparr> = Some 1
   \<and> fst (loop_body \<lparr>wget_status = 4, hostname_output = ''hub'' @ [CHR 0x0A], wifi_connect_status = Some 1, pathname_matches = (\<lambda>p. [])\<rparr>) =
       [WgetSpider ''http://google.com'',
        Print ''Internet connection is unavailable. Starting WiFi Connect.'',
        WifiConnect (wifi_connect_args \<lparr>wget_status = 4, hostname_output = ''hub'' @ [CHR 0x0A], wifi_connect_status = Some 1, pathname_matches = (\<lambda>p. [])\<rparr>),
        WifiConnectExit 1,
        Sleep 10]"
  using loop_iteration [of "\<lparr>wget_status = 0, hostname_output = ''hub'' @ [CHR 0x0A], wifi_connect_status = None, pathname_matches = (\<lambda>p. [])\<rparr>" "[]"] loop_iteration [of "\<lparr>wget_status = 4, hostname_output = ''hub'' @ [CHR 0x0A], wifi_connect_status = Some 1, pathname_matches = (\<lambda>p. [])\<rparr>" "[]"]
  by (simp add: checkConnectivity_def check_internet_def)

subsection \<open>Sleeping after a session\<close>

text \<open>
  C8, as stated, fails on the version of the script kept beside the Dockerfile: a session
  exits with status 1, and the next probe follows with no sleep in between.
\<close>

theorem backoff_after_failed_session_counterexample:
  "\<not> backoff_after_failure (start_wifi_connect_success [\<lparr>wget_status = 4, hostname_output = ''hub'' @ [CHR 0x0A], wifi_connect_status = Some 1, pathname_matches = (\<lambda>p. [])\<rparr>, \<lparr>wget_status = 0, hostname_output = ''hub'' @ [CHR 0x0A], wifi_connect_status = None, pathname_matches = (\<lambda>p. [])\<rparr>])"
  by (simp add: start_wifi_connect_success_def loop_body_success_cases)

text \<open>
  C8, amended: start-wifi-connect.sh sleeps (10 seconds) after every session, whatever
  its exit status, before the next probe. The version of the script kept beside the
  Dockerfile sleeps (60 seconds) after a session that exits with status 0 and does not
  sleep after a session that exits with any other status.
\<close>

theorem sleep_after_session:
  "backoff_after_failure (start_wifi_connect its)
   \<and> (wget_status it \<noteq> 0 \<and> wifi_connect_status it = Some rc \<longrightarrow>
        loop_body it =
          ([WgetSpider ''http://google.com'',
            Print ''Internet connection is unavailable. Starting WiFi Connect.'',
            WifiConnect (wifi_connect_args it),
            WifiConnectExit rc,
            Sleep 10], True)
        \<and> loop_body_success it =
          ([WgetSpider ''http://google.com'',
            Print ''Internet connection is unavailable. Starting WiFi Connect.'',
            WifiConnect (wifi_connect_args it),
            WifiConnectExit rc,
            EchoExit rc] @ (if rc = 0 then [Sleep 60] else []), True))"
  by (simp add: start_wifi_connect_def backoff_loop loop_body_cases loop_body_success_cases)

theorem sleep_after_session_witness:
  "wget_status \<lparr>wget_status = 4, hostname_output = ''hub'' @ [CHR 0x0A], wifi_connect_status = Some 1, pathname_matches = (\<lambda>p. [])\<rparr> \<noteq> 0
   \<and> wifi_connect_status \<lparr>wget_status = 4, hostname_output = ''hub'' @ [CHR 0x0A], wifi_connect_status = Some 1, pathname_matches = (\<lambda>p. [])\<rparr> = Some 1
   \<and> loop_body_success \<lparr>wget_status = 4, hostname_output = ''hub'' @ [CHR 0x0A], wifi_connect_status = Some 1, pathname_matches = (\<lambda>p. [])\<rparr>
    = ([WgetSpider ''http://google.com'',
        Print ''Internet connection is unavailable. Starting WiFi Connect.'',
        WifiConnect [''--portal-ssid'', ''hub''],
        WifiConnectExit 1,
        EchoExit 1], True)
   \<and> loop_body \<lparr>wget_status = 4, hostname_output = ''hub'' @ [CHR 0x0A], wifi_connect_status = Some 1, pathname_matches = (\<lambda>p. [])\<rparr>
    = ([WgetSpider ''http://google.com'',
        Print ''Internet connection is unavailable. Starting WiFi Connect.'',
        WifiConnect [''--portal-ssid'', ''hub''],
        WifiConnectExit 1,
        Sleep 10], True)"
  using sleep_after_session [of "[]" "\<lparr>wget_status = 4, hostname_output = ''hub'' @ [CHR 0x0A], wifi_connect_status = Some 1, pathname_matches = (\<lambda>p. [])\<rparr>" 1]
  by (simp add: wifi_connect_args_def pathname_expansion_def is_glob_char_def is_ifs_def)

subsection \<open>The name of the portal\<close>

text \<open>
  For a host name without blanks and without pattern characters, printed with a newline
  after it, the arguments of the session are the option and that name.
\<close>

lemma plain_hostname_args:
  assumes "name \<noteq> []" and "\<forall>c \<in> set name. \<not> is_ifs c" and "\<not> list_ex is_glob_char name"
    and "hostname_output it = name @ [CHR 0x0A]"
  shows "wifi_connect_args it = [''--portal-ssid'', name]"
proof -
  have "is_ifs (CHR 0x0A)" by (simp add: is_ifs_def)
  with assms(1,2,4) have "split_words [] (hostname_output it) = [name]"
    using split_words_plain [of name "CHR 0x0A" "[]"] by simp
  with assms(3) show ?thesis
    by (simp add: wifi_connect_args_def pathname_expansion_def)
qed

text \<open>
  C9 fails on the code for a host name that is a pattern: \<^verbatim>\<open>$(hostname)\<close> is not
  quoted, so the word undergoes pathname expansion. With the host name \<^verbatim>\<open>*\<close> and the
  working directory of the image (the files \<^verbatim>\<open>start-wifi-connect.sh\<close>, \<^verbatim>\<open>ui\<close> and
  \<^verbatim>\<open>wifi-connect\<close>), the session is started with the portal name
  \<^verbatim>\<open>start-wifi-connect.sh\<close> and two further arguments: the name of a file, not the
  host identifier. Both versions of the script behave so.
\<close>

theorem portal_ssid_pattern_hostname:
  "start_wifi_connect
     [\<lparr>wget_status = 4, hostname_output = ''*'' @ [CHR 0x0A], wifi_connect_status = Some 0,
       pathname_matches =
         (\<lambda>p. if p = ''*'' then [''start-wifi-connect.sh'', ''ui'', ''wifi-connect''] else [])\<rparr>]
   = [WgetSpider ''http://google.com'',
      Print ''Internet connection is unavailable. Starting WiFi Connect.'',
      WifiConnect [''--portal-ssid'', ''start-wifi-connect.sh'', ''ui'', ''wifi-connect''],
      WifiConnectExit 0,
      Sleep 10]
   \<and> start_wifi_connect_success
     [\<lparr>wget_status = 4, hostname_output = ''*'' @ [CHR 0x0A], wifi_connect_status = Some 0,
       pathname_matches =
         (\<lambda>p. if p = ''*'' then [''start-wifi-connect.sh'', ''ui'', ''wifi-connect''] else [])\<rparr>]
   = [WgetSpider ''http://google.com'',
      Print ''Internet connection is unavailable. Starting WiFi Connect.'',
      WifiConnect [''--portal-ssid'', ''start-wifi-connect.sh'', ''ui'', ''wifi-connect''],
      WifiConnectExit 0,
      EchoExit 0,
      Sleep 60]"
  by (simp add: start_wifi_connect_def start_wifi_connect_success_def loop_body_cases
      loop_body_success_cases wifi_connect_args_def pathname_expansion_def is_glob_char_def
      is_ifs_def)

section \<open>Properties of the access-point session\<close>

lemma inv_start: "session_inv (start_session t)"
  by (simp add: session_inv_def start_session_def terminal_def)

lemma inv_step: "session_inv m \<Longrightarrow> step m ev = Inr m' \<Longrightarrow> session_inv m'"
  by (cases "state m"; cases ev)
     (auto simp: step_def terminate_def session_inv_def terminal_def)

lemma inv_run: "session_inv m \<Longrightarrow> session_inv (run m evs)"
proof (induction evs arbitrary: m)
  case Nil
  then show ?case by simp
next
  case (Cons ev evs)
  show ?case
  proof (cases "step m ev")
    case (Inl err)
    with Cons show ?thesis by simp
  next
    case (Inr m')
    with Cons inv_step show ?thesis by simp
  qed
qed

text \<open>
  C4: in a session that events have led to applying a submission, a join attempt that
  fails for any of the three reasons does not end the session: no completion is
  signalled to the Connectivity Loop, the access point is up, the error is kept, and the
  session is back in \<open>Scanning\<close>; once the networks are listed it awaits a submission
  again, and the next submission is accepted.
\<close>

theorem failed_join_keeps_session:
  assumes "m = run (start_session t) evs" and "state m = Applying"
  shows "\<exists>m'. step m (JoinFailed f) = Inr m'
           \<and> \<not> terminal m' \<and> \<not> completionSignalled m' \<and> accessPointUp m'
           \<and> state m' = Scanning \<and> lastError m' = Some (join_error f)
           \<and> (\<forall>nets c. \<exists>m'' m'''. step m' (NetworksListed nets) = Inr m''
                 \<and> state m'' = AwaitingSubmission \<and> accessPointUp m''
                 \<and> lastError m'' = Some (join_error f)
                 \<and> step m'' (Submit c) = Inr m''' \<and> state m''' = Applying
                 \<and> applying m''' = Some c)"
proof -
  from assms(1) have "session_inv m" using inv_run inv_start by simp
  with assms(2) have "accessPointUp m" "\<not> completionSignalled m"
    by (simp_all add: session_inv_def terminal_def)
  with assms(2) show ?thesis
    by (simp add: step_def terminal_def)
qed

theorem failed_join_keeps_session_witness:
  "state (run (start_session 0) [NetworksListed [\<lparr>ssid = ''Home'', security = ''wpa''\<rparr>], Submit \<lparr>cred_ssid = ''Home'', cred_identity = None, cred_passphrase = Some ''wrong''\<rparr>]) = Applying
   \<and> (case step (run (start_session 0) [NetworksListed [\<lparr>ssid = ''Home'', security = ''wpa''\<rparr>], Submit \<lparr>cred_ssid = ''Home'', cred_identity = None, cred_passphrase = Some ''wrong''\<rparr>]) (JoinFailed BadCredentials) of
        Inl err \<Rightarrow> False
      | Inr m' \<Rightarrow> state m' = Scanning \<and> accessPointUp m' \<and> \<not> completionSignalled m'
                 \<and> lastError m' = Some JoinCredentialInvalid)"
  using failed_join_keeps_session [of "run (start_session 0) [NetworksListed [\<lparr>ssid = ''Home'', security = ''wpa''\<rparr>], Submit \<lparr>cred_ssid = ''Home'', cred_identity = None, cred_passphrase = Some ''wrong''\<rparr>]" 0 "[NetworksListed [\<lparr>ssid = ''Home'', security = ''wpa''\<rparr>], Submit \<lparr>cred_ssid = ''Home'', cred_identity = None, cred_passphrase = Some ''wrong''\<rparr>]" BadCredentials]
  by (simp add: step_def start_session_def)

subsection \<open>The session timeout\<close>



















end
